theory Spec2Isabelle
  imports Complex_Main "HOL-Library.AList"
begin

section \<open>JavaScript values as the extension sees them\<close>

text \<open>
  The extension's main module only ever compares numbers, tests them for truthiness and
  stores them; it does no arithmetic. A JavaScript number is therefore
  modelled by its exact value: a double is a rational, or one of the two infinities, or
  \<^verbatim>\<open>NaN\<close>. Negative zero is identified with zero (both are falsy, and
  \<^verbatim>\<open><\<close> and \<^verbatim>\<open>===\<close> do not tell them apart).
\<close>

datatype jsnum = NaN | NegInf | Fin rat | PosInf

text \<open>
  A value produced by \<^verbatim>\<open>JSON.parse\<close>. An object is the list of its own
  properties, each name once (the parser keeps the last of a repeated name); a property
  that is absent reads as \<^verbatim>\<open>undefined\<close>, which is
  \<open>None\<close> of \<open>json option\<close>. (The parser never yields the number NaN; the type
  has it, and what is proved holds of it too.)
\<close>

datatype json =
    JNull
  | JBool bool
  | JNum jsnum
  | JStr string
  | JArr "json list"
  | JObj "(string \<times> json) list"

text \<open>The relational operator \<^verbatim>\<open><\<close> on two numbers: false as soon as one is NaN.\<close>

fun js_lt :: "jsnum \<Rightarrow> jsnum \<Rightarrow> bool" where
  "js_lt NaN _ = False"
| "js_lt _ NaN = False"
| "js_lt NegInf NegInf = False"
| "js_lt NegInf _ = True"
| "js_lt _ NegInf = False"
| "js_lt PosInf _ = False"
| "js_lt (Fin a) (Fin b) = (a < b)"
| "js_lt (Fin a) PosInf = True"

text \<open>\<^verbatim>\<open>>=\<close> written as \<open>js_le b a\<close>: false as soon as one is NaN.\<close>

fun js_le :: "jsnum \<Rightarrow> jsnum \<Rightarrow> bool" where
  "js_le NaN _ = False"
| "js_le _ NaN = False"
| "js_le NegInf _ = True"
| "js_le _ PosInf = True"
| "js_le PosInf _ = False"
| "js_le _ NegInf = False"
| "js_le (Fin a) (Fin b) = (a \<le> b)"

text \<open>Strict equality \<^verbatim>\<open>===\<close> on two numbers: NaN equals nothing.\<close>

definition js_strict_eq_num :: "jsnum \<Rightarrow> jsnum \<Rightarrow> bool" where
  "js_strict_eq_num a b = (a \<noteq> NaN \<and> b \<noteq> NaN \<and> a = b)"

text \<open>Truthiness (\<^verbatim>\<open>ToBoolean\<close>) of a number and of a JSON value.\<close>

definition truthy_num :: "jsnum \<Rightarrow> bool" where
  "truthy_num n = (n \<noteq> NaN \<and> n \<noteq> Fin 0)"

fun truthy :: "json \<Rightarrow> bool" where
  "truthy JNull = False"
| "truthy (JBool b) = b"
| "truthy (JNum n) = truthy_num n"
| "truthy (JStr s) = (s \<noteq> [])"
| "truthy (JArr _) = True"
| "truthy (JObj _) = True"

text \<open>
  \<^verbatim>\<open>a || b\<close> where \<open>a\<close> is a property read (possibly \<^verbatim>\<open>undefined\<close>), and
  where \<open>a\<close> is a number.
\<close>

fun js_or :: "json option \<Rightarrow> json \<Rightarrow> json" where
  "js_or None b = b"
| "js_or (Some a) b = (if truthy a then a else b)"

definition js_or_num :: "jsnum \<Rightarrow> jsnum \<Rightarrow> jsnum" where
  "js_or_num a b = (if truthy_num a then a else b)"

definition js_or_str :: "string \<Rightarrow> string \<Rightarrow> string" where
  "js_or_str a b = (if a \<noteq> [] then a else b)"

text \<open>\<^verbatim>\<open>typeof v === 'object'\<close>: true of null, arrays and objects.\<close>

fun typeof_object :: "json \<Rightarrow> bool" where
  "typeof_object JNull = True"
| "typeof_object (JArr _) = True"
| "typeof_object (JObj _) = True"
| "typeof_object _ = False"

text \<open>
  A property read \<^verbatim>\<open>payload.name\<close>. The extension reads only the names
  \<^verbatim>\<open>secret\<close>, \<^verbatim>\<open>type\<close>, \<^verbatim>\<open>selection\<close>, \<^verbatim>\<open>timestamp\<close>,
  \<^verbatim>\<open>node\<close> and \<^verbatim>\<open>text\<close>; an array, a string, a number and a boolean have
  none of them, so the read is \<^verbatim>\<open>undefined\<close> there. (A read on
  \<^verbatim>\<open>null\<close> would throw; the extension never reaches one.)
\<close>

fun get_field :: "json \<Rightarrow> string \<Rightarrow> json option" where
  "get_field (JObj fields) name = map_of fields name"
| "get_field _ name = None"

section \<open>What the platform supplies\<close>

text \<open>
  The extension runs on GJS, GLib/Gio and St. What it takes from them is a parameter of
  the model, so every theorem holds whatever they compute:
  the two values of the enumeration \<^verbatim>\<open>St.ClipboardType\<close> (numbers);
  \<^verbatim>\<open>Number(v)\<close> for a string, an array or an object (the primitive cases are
  written out in \<open>js_Number\<close>); the string conversion of a template literal for a
  number, an array or an object; \<^verbatim>\<open>JSON.parse\<close> on a text that is not
  empty, which returns a value or throws an error with a message, and the message of the
  error it throws on the empty text; \<^verbatim>\<open>GLib.Uri.parse\<close>, which throws (\<open>None\<close>) or returns
  a URI with a host (nullable) and a port (\<open>-1\<close> when the URI has none); and the network
  exchange of \<^verbatim>\<open>_sendMessage\<close> once the address is resolved (connect, write, read
  the reply when one is expected), whose result is the parsed reply or
  \<^verbatim>\<open>null\<close>.
\<close>

record platform =
  ClipboardType_CLIPBOARD :: nat
  ClipboardType_PRIMARY :: nat
  Number_of_object :: "json \<Rightarrow> jsnum"
  String_of_value :: "json \<Rightarrow> string"
  JSON_parse :: "string \<Rightarrow> string + json"
  JSON_parse_empty :: string
  Uri_parse :: "string \<Rightarrow> (string option \<times> int) option"
  exchange :: "string \<Rightarrow> int \<Rightarrow> json \<Rightarrow> bool \<Rightarrow> json option"

text \<open>\<^verbatim>\<open>Number(v)\<close> of a property read.\<close>

fun js_Number :: "platform \<Rightarrow> json option \<Rightarrow> jsnum" where
  "js_Number pf None = NaN"
| "js_Number pf (Some JNull) = Fin 0"
| "js_Number pf (Some (JBool b)) = (if b then Fin 1 else Fin 0)"
| "js_Number pf (Some (JNum n)) = n"
| "js_Number pf (Some v) = Number_of_object pf v"

text \<open>The string a template literal \<^verbatim>\<open>${v}\<close> inserts.\<close>

fun js_String :: "platform \<Rightarrow> json \<Rightarrow> string" where
  "js_String pf (JStr s) = s"
| "js_String pf JNull = ''null''"
| "js_String pf (JBool b) = (if b then ''true'' else ''false'')"
| "js_String pf v = String_of_value pf v"

text \<open>\<^verbatim>\<open>Date.now()\<close> is an integer number of milliseconds.\<close>

definition Date_now :: "int \<Rightarrow> jsnum" where
  "Date_now now = Fin (of_int now)"

text \<open>
  \<^verbatim>\<open>JSON.parse(text)\<close>: no JSON text is empty, so the empty text is a syntax
  error on every platform; \<open>Inl\<close> is the message of the error thrown.
\<close>

definition js_JSON_parse :: "platform \<Rightarrow> string \<Rightarrow> string + json" where
  "js_JSON_parse pf s = (if s = [] then Inl (JSON_parse_empty pf) else JSON_parse pf s)"

section \<open>Settings and the state of the extension\<close>

text \<open>The keys of the settings schema the extension reads.\<close>

record settings =
  listen_port :: int
  peer_endpoint :: string
  shared_secret :: string
  poll_interval :: int
  sync_primary :: bool

text \<open>A value of \<^verbatim>\<open>_latestState\<close>: \<^verbatim>\<open>{ text, timestamp, node }\<close>.\<close>

record state_record =
  sr_text :: string
  sr_timestamp :: jsnum
  sr_node :: json

text \<open>
  The fields of the extension object that the server's handlers and
  \<^verbatim>\<open>_publishClipboard\<close> read and write (the timers, the signal handlers and
  \<^verbatim>\<open>_pollRemote\<close>, which stores a peer's reply as it comes, are not part of the
  model):
  \<^verbatim>\<open>_latestState\<close> (a Map from selection name to record),
  \<^verbatim>\<open>_suppressedSelections\<close> (a Set of selection names), \<^verbatim>\<open>_nodeId\<close>, and the
  text St's clipboard holds per \<^verbatim>\<open>St.ClipboardType\<close> value, which
  \<^verbatim>\<open>set_text\<close> overwrites.
\<close>

record extension =
  latestState :: "string \<rightharpoonup> state_record"
  suppressedSelections :: "string set"
  clipboard :: "nat \<rightharpoonup> string"
  nodeId :: string

section \<open>Selections\<close>

text \<open>
  \<^verbatim>\<open>SELECTION_KEYS = new Map([[CLIPBOARD, 'CLIPBOARD'], [PRIMARY, 'PRIMARY']])\<close>:
  the entries in insertion order; a key set twice keeps its place and takes the later
  value, as \<open>AList.update\<close> does.
\<close>

definition SELECTION_KEYS :: "platform \<Rightarrow> (nat \<times> string) list" where
  "SELECTION_KEYS pf =
     AList.update (ClipboardType_PRIMARY pf) ''PRIMARY''
       (AList.update (ClipboardType_CLIPBOARD pf) ''CLIPBOARD'' [])"

text \<open>
  The loop of \<^verbatim>\<open>_selectionFromKey\<close> over the entries; \<open>None\<close> is
  \<^verbatim>\<open>null\<close>. \<^verbatim>\<open>name === key\<close> holds when the key is that string.
\<close>

fun selectionFromKey_entries ::
  "platform \<Rightarrow> settings \<Rightarrow> (nat \<times> string) list \<Rightarrow> json option \<Rightarrow> nat option" where
  "selectionFromKey_entries pf cfg [] key = None"
| "selectionFromKey_entries pf cfg ((selection, name) # rest) key =
     (if key = Some (JStr name) then
        (if selection = ClipboardType_PRIMARY pf \<and> \<not> sync_primary cfg then None
         else Some selection)
      else selectionFromKey_entries pf cfg rest key)"

definition selectionFromKey :: "platform \<Rightarrow> settings \<Rightarrow> json option \<Rightarrow> nat option" where
  "selectionFromKey pf cfg key = selectionFromKey_entries pf cfg (SELECTION_KEYS pf) key"

text \<open>\<^verbatim>\<open>_selectionKey\<close>: \<^verbatim>\<open>SELECTION_KEYS.get(selection) || 'CLIPBOARD'\<close>.\<close>

definition selectionKey :: "platform \<Rightarrow> nat \<Rightarrow> string" where
  "selectionKey pf selection =
     (case map_of (SELECTION_KEYS pf) selection of
        None \<Rightarrow> ''CLIPBOARD''
      | Some name \<Rightarrow> js_or_str name ''CLIPBOARD'')"

section \<open>Reconciliation and the state store\<close>

text \<open>\<^verbatim>\<open>_shouldAcceptUpdate(selection, timestamp, sourceNode, text)\<close>.\<close>

definition shouldAcceptUpdate ::
  "platform \<Rightarrow> extension \<Rightarrow> nat \<Rightarrow> jsnum \<Rightarrow> json \<Rightarrow> string \<Rightarrow> bool" where
  "shouldAcceptUpdate pf ext selection timestamp sourceNode txt =
     (let key = selectionKey pf selection;
          current = latestState ext key
      in if sourceNode = JStr (nodeId ext) then False
         else case current of
           None \<Rightarrow> True
         | Some cur \<Rightarrow>
             if js_lt timestamp (sr_timestamp cur) then False
             else if js_strict_eq_num timestamp (sr_timestamp cur) \<and> txt = sr_text cur then False
             else True)"

text \<open>
  \<^verbatim>\<open>_setClipboardFromRemote(selection, text)\<close>; St's \<^verbatim>\<open>set_text\<close> is
  taken to store the text and not to throw.
\<close>

definition setClipboardFromRemote :: "platform \<Rightarrow> extension \<Rightarrow> nat \<Rightarrow> string \<Rightarrow> extension" where
  "setClipboardFromRemote pf ext selection txt =
     (let key = selectionKey pf selection
      in ext\<lparr>suppressedSelections := insert key (suppressedSelections ext),
              clipboard := (clipboard ext)(selection \<mapsto> txt)\<rparr>)"

text \<open>\<^verbatim>\<open>_recordState(selection, text, timestamp, node)\<close>.\<close>

definition recordState ::
  "platform \<Rightarrow> extension \<Rightarrow> nat \<Rightarrow> string \<Rightarrow> jsnum \<Rightarrow> json \<Rightarrow> extension" where
  "recordState pf ext selection txt timestamp node =
     (let key = selectionKey pf selection
      in ext\<lparr>latestState := (latestState ext)(key \<mapsto>
              \<lparr>sr_text = txt, sr_timestamp = timestamp, sr_node = node\<rparr>)\<rparr>)"

text \<open>
  \<^verbatim>\<open>_latestState.get(k)\<close> for a key that is any value: the Map holds string keys
  only, so a key that is not a string finds nothing.
\<close>

fun latestState_get :: "extension \<Rightarrow> json \<Rightarrow> state_record option" where
  "latestState_get ext (JStr k) = latestState ext k"
| "latestState_get ext _ = None"

section \<open>The server: one payload\<close>

text \<open>The object literals the handlers return.\<close>

definition reply_status :: "string \<Rightarrow> json" where
  "reply_status s = JObj [(''status'', JStr s)]"

definition reply_error :: "string \<Rightarrow> json" where
  "reply_error message = JObj [(''status'', JStr ''error''), (''message'', JStr message)]"

text \<open>
  The three lines of \<^verbatim>\<open>_handlePayload\<close> that read the update's fields:
  \<^verbatim>\<open>Number(payload.timestamp) || Date.now()\<close>, \<^verbatim>\<open>payload.node || 'remote'\<close>
  and \<^verbatim>\<open>typeof payload.text === 'string' ? payload.text : ''\<close>.
\<close>

definition payload_timestamp :: "platform \<Rightarrow> int \<Rightarrow> json \<Rightarrow> jsnum" where
  "payload_timestamp pf now payload =
     js_or_num (js_Number pf (get_field payload ''timestamp'')) (Date_now now)"

definition payload_sourceNode :: "json \<Rightarrow> json" where
  "payload_sourceNode payload = js_or (get_field payload ''node'') (JStr ''remote'')"

definition payload_text :: "json \<Rightarrow> string" where
  "payload_text payload =
     (case get_field payload ''text'' of Some (JStr s) \<Rightarrow> s | _ \<Rightarrow> [])"

text \<open>
  The end of the update branch, from the call of \<^verbatim>\<open>_shouldAcceptUpdate\<close> to the
  \<^verbatim>\<open>return\<close>: the decision and, on acceptance, the write to the clipboard and to
  the state store. (\<^verbatim>\<open>_pollRemote\<close> runs the same four steps on a pull reply.)
\<close>

definition reconcile ::
  "platform \<Rightarrow> extension \<Rightarrow> nat \<Rightarrow> jsnum \<Rightarrow> json \<Rightarrow> string \<Rightarrow> json \<times> extension" where
  "reconcile pf ext selection timestamp sourceNode txt =
     (if \<not> shouldAcceptUpdate pf ext selection timestamp sourceNode txt
      then (reply_status ''ignored'', ext)
      else (reply_status ''ok'',
            recordState pf (setClipboardFromRemote pf ext selection txt)
              selection txt timestamp sourceNode))"

text \<open>
  The branch \<^verbatim>\<open>type === 'update'\<close> of \<^verbatim>\<open>_handlePayload\<close>.
  \<^verbatim>\<open>!selection\<close> holds of \<^verbatim>\<open>null\<close> and of the number zero.
\<close>

definition handleUpdate ::
  "platform \<Rightarrow> settings \<Rightarrow> extension \<Rightarrow> int \<Rightarrow> json \<Rightarrow> json \<times> extension" where
  "handleUpdate pf cfg ext now payload =
     (case selectionFromKey pf cfg (get_field payload ''selection'') of
        None \<Rightarrow> (reply_error ''Unknown selection'', ext)
      | Some selection \<Rightarrow>
          if selection = 0 then (reply_error ''Unknown selection'', ext)
          else
            let timestamp = payload_timestamp pf now payload;
                sourceNode = payload_sourceNode payload;
                txt = payload_text payload
            in reconcile pf ext selection timestamp sourceNode txt)"

text \<open>The branch \<^verbatim>\<open>type === 'pull'\<close>.\<close>

definition handlePull :: "extension \<Rightarrow> json \<Rightarrow> json \<times> extension" where
  "handlePull ext payload =
     (let requested = js_or (get_field payload ''selection'') (JStr ''CLIPBOARD'')
      in case latestState_get ext requested of
           None \<Rightarrow> (reply_status ''empty'', ext)
         | Some state \<Rightarrow>
             (JObj [(''status'', JStr ''ok''),
                    (''type'', JStr ''update''),
                    (''node'', JStr (nodeId ext)),
                    (''selection'', requested),
                    (''timestamp'', JNum (sr_timestamp state)),
                    (''text'', JStr (sr_text state))],
              ext))"

text \<open>
  \<^verbatim>\<open>_handlePayload(payload)\<close>: the reply and the extension afterwards. \<open>now\<close> is
  what \<^verbatim>\<open>Date.now()\<close> reads during the call.
\<close>

definition handlePayload ::
  "platform \<Rightarrow> settings \<Rightarrow> extension \<Rightarrow> int \<Rightarrow> json \<Rightarrow> json \<times> extension" where
  "handlePayload pf cfg ext now payload =
     (if \<not> truthy payload \<or> \<not> typeof_object payload
      then (reply_error ''Invalid payload'', ext)
      else
        let expectedSecret = js_or_str (shared_secret cfg) []
        in if get_field payload ''secret'' \<noteq> Some (JStr expectedSecret)
           then (reply_status ''unauthorized'', ext)
           else
             let ptype = js_or (get_field payload ''type'') (JStr ''update'')
             in if ptype = JStr ''update'' then handleUpdate pf cfg ext now payload
                else if ptype = JStr ''pull'' then handlePull ext payload
                else (reply_error (''Unsupported payload type: '' @ js_String pf ptype), ext))"

section \<open>The server: one connection\<close>

text \<open>
  What \<^verbatim>\<open>read_line_async\<close> gives \<^verbatim>\<open>_processIncoming\<close>: it throws, or its
  line is \<^verbatim>\<open>null\<close> (the stream ended with nothing read), or it is a byte array
  (an object, truthy also when it has no bytes), here already decoded to text.
\<close>

datatype read_line = ReadThrows string | ReadNull | ReadLine string

text \<open>
  The calls the \<^verbatim>\<open>finally\<close> block of \<^verbatim>\<open>_processIncoming\<close> makes on the
  connection: it writes the reply and closes the output stream in one
  \<^verbatim>\<open>try\<close> (a write that throws skips that close: \<open>write_ok\<close> says whether
  \<^verbatim>\<open>write_all_async\<close> returned), then it calls \<^verbatim>\<open>connection.close\<close> in
  a \<^verbatim>\<open>try\<close> of its own.
\<close>

datatype connection_call = Write_reply json | Close_output | Close_connection

definition finally_calls :: "bool \<Rightarrow> json \<Rightarrow> connection_call list" where
  "finally_calls write_ok response =
     Write_reply response # (if write_ok then [Close_output] else []) @ [Close_connection]"

text \<open>
  \<^verbatim>\<open>_processIncoming(connection)\<close>: the calls made on the connection, the reply
  among them, and the extension afterwards.
\<close>

definition processIncoming ::
  "platform \<Rightarrow> settings \<Rightarrow> extension \<Rightarrow> int \<Rightarrow> read_line \<Rightarrow> bool
     \<Rightarrow> connection_call list \<times> extension" where
  "processIncoming pf cfg ext now input write_ok =
     (let response = reply_status ''ignored'';
          outcome =
            (case input of
               ReadThrows message \<Rightarrow> (reply_error message, ext)
             | ReadNull \<Rightarrow> (response, ext)
             | ReadLine payloadText \<Rightarrow>
                 (case js_JSON_parse pf payloadText of
                    Inl message \<Rightarrow> (reply_error message, ext)
                  | Inr payload \<Rightarrow> handlePayload pf cfg ext now payload))
      in (finally_calls write_ok (fst outcome), snd outcome))"

section \<open>The client\<close>

text \<open>
  \<^verbatim>\<open>_sendMessage(payload, expectResponse)\<close>: either it returns \<^verbatim>\<open>null\<close>
  before any socket client is made, or it connects to a host and a port and returns what
  the exchange gives.
\<close>

datatype send_outcome = NoConnection | Connection string int "json option"

definition sendMessage :: "platform \<Rightarrow> settings \<Rightarrow> json \<Rightarrow> bool \<Rightarrow> send_outcome" where
  "sendMessage pf cfg payload expectResponse =
     (let endpoint = peer_endpoint cfg
      in if endpoint = [] then NoConnection
         else case Uri_parse pf endpoint of
           None \<Rightarrow> NoConnection
         | Some (host, uri_port) \<Rightarrow>
             let port = (if uri_port = - 1 then listen_port cfg else uri_port)
             in (case host of
                   None \<Rightarrow> NoConnection
                 | Some h \<Rightarrow>
                     if h = [] \<or> port \<le> 0 \<or> port > 65535 then NoConnection
                     else Connection h port (exchange pf h port payload expectResponse)))"

fun returned :: "send_outcome \<Rightarrow> json option" where
  "returned NoConnection = None"
| "returned (Connection _ _ response) = response"

text \<open>
  \<^verbatim>\<open>_publishClipboard(selection, text)\<close>: the record it stores and the payload it
  hands to \<^verbatim>\<open>_sendMessage\<close>.
\<close>

definition publishClipboard ::
  "platform \<Rightarrow> settings \<Rightarrow> extension \<Rightarrow> int \<Rightarrow> nat \<Rightarrow> string \<Rightarrow> json \<times> extension" where
  "publishClipboard pf cfg ext now selection txt =
     (let timestamp = Date_now now
      in (JObj [(''type'', JStr ''update''),
                (''node'', JStr (nodeId ext)),
                (''selection'', JStr (selectionKey pf selection)),
                (''timestamp'', JNum timestamp),
                (''text'', JStr txt),
                (''secret'', JStr (js_or_str (shared_secret cfg) []))],
          recordState pf ext selection txt timestamp (JStr (nodeId ext))))"

text \<open>The extension right after \<^verbatim>\<open>enable()\<close>, before any clipboard event.\<close>

definition enabled :: "string \<Rightarrow> (nat \<rightharpoonup> string) \<Rightarrow> extension" where
  "enabled node host_clipboard =
     \<lparr>latestState = Map.empty, suppressedSelections = {},
      clipboard = host_clipboard, nodeId = node\<rparr>"

section \<open>The reconciliation rules as the specification words them\<close>

text \<open>
  The specification gives \<open>shouldAccept\<close> as five rules, evaluated in order; the first
  rule that applies decides. This definition follows those words, not the code: a rule is
  a condition with its verdict, and \<open>evaluate_in_order\<close> takes the first condition that
  holds. The comparisons of rules 3 and 4 are the language's on numbers, which on numbers
  other than NaN are the usual order and equality.
\<close>

datatype verdict = Accept | Reject

fun evaluate_in_order :: "(bool \<times> verdict) list \<Rightarrow> verdict option" where
  "evaluate_in_order [] = None"
| "evaluate_in_order ((applies, v) # rules) =
     (if applies then Some v else evaluate_in_order rules)"

definition shouldAccept_rules ::
  "state_record option \<Rightarrow> jsnum \<Rightarrow> json \<Rightarrow> string \<Rightarrow> string \<Rightarrow> (bool \<times> verdict) list" where
  "shouldAccept_rules current incomingTimestamp incomingNode incomingText localNodeId =
     [(incomingNode = JStr localNodeId, Reject),
      (current = None, Accept),
      ((case current of None \<Rightarrow> False
        | Some cur \<Rightarrow> js_lt incomingTimestamp (sr_timestamp cur)), Reject),
      ((case current of None \<Rightarrow> False
        | Some cur \<Rightarrow> js_strict_eq_num incomingTimestamp (sr_timestamp cur)
                        \<and> incomingText = sr_text cur), Reject),
      (True, Accept)]"

definition shouldAccept_reference ::
  "state_record option \<Rightarrow> jsnum \<Rightarrow> json \<Rightarrow> string \<Rightarrow> string \<Rightarrow> bool" where
  "shouldAccept_reference current incomingTimestamp incomingNode incomingText localNodeId =
     (evaluate_in_order
        (shouldAccept_rules current incomingTimestamp incomingNode incomingText localNodeId)
      = Some Accept)"

section \<open>Worked inputs\<close>

text \<open>
  A platform for the worked examples: the enumeration as St declares it
  (\<^verbatim>\<open>PRIMARY = 0\<close>, \<^verbatim>\<open>CLIPBOARD = 1\<close>), and library functions that answer
  just the inputs the examples use.
\<close>

definition st_platform :: platform where
  "st_platform =
     \<lparr>ClipboardType_CLIPBOARD = 1, ClipboardType_PRIMARY = 0,
      Number_of_object = (\<lambda>v. NaN),
      String_of_value = (\<lambda>v. ''[object Object]''),
      JSON_parse = (\<lambda>s. if s = ''{}'' then Inr (JObj []) else Inl ''Unexpected token''),
      JSON_parse_empty = ''Unexpected end of JSON input'',
      Uri_parse = (\<lambda>s. if s = ''tcp://peer'' then Some (Some ''peer'', - 1)
                        else if s = ''peer:7100'' then Some (None, - 1)
                        else None),
      exchange = (\<lambda>host port payload expectResponse. None)\<rparr>"

definition example_settings :: settings where
  "example_settings =
     \<lparr>listen_port = 7100, peer_endpoint = ''tcp://peer'', shared_secret = ''s'',
      poll_interval = 0, sync_primary = False\<rparr>"

text \<open>The same settings with another peer endpoint and listen port.\<close>

definition endpoint_settings :: "string \<Rightarrow> int \<Rightarrow> settings" where
  "endpoint_settings endpoint port =
     example_settings\<lparr>peer_endpoint := endpoint, listen_port := port\<rparr>"

text \<open>The same settings while the primary selection is synchronised.\<close>

definition primary_settings :: settings where
  "primary_settings = example_settings\<lparr>sync_primary := True\<rparr>"

text \<open>
  The push of the specification's first scenario; a later push; a push without
  \<^verbatim>\<open>type\<close>; a push without \<^verbatim>\<open>type\<close>, \<^verbatim>\<open>timestamp\<close> and
  \<^verbatim>\<open>node\<close>; a pull for a channel.
\<close>

definition hello_update :: json where
  "hello_update =
     JObj [(''type'', JStr ''update''), (''node'', JStr ''A''),
           (''selection'', JStr ''CLIPBOARD''), (''timestamp'', JNum (Fin 1000)),
           (''text'', JStr ''hello''), (''secret'', JStr ''s'')]"

definition later_update :: json where
  "later_update =
     JObj [(''type'', JStr ''update''), (''node'', JStr ''A''),
           (''selection'', JStr ''CLIPBOARD''), (''timestamp'', JNum (Fin 2000)),
           (''text'', JStr ''world''), (''secret'', JStr ''s'')]"

definition untyped_update :: json where
  "untyped_update =
     JObj [(''selection'', JStr ''CLIPBOARD''), (''timestamp'', JNum (Fin 1000)),
           (''text'', JStr ''hello''), (''secret'', JStr ''s'')]"

definition bare_update :: json where
  "bare_update =
     JObj [(''selection'', JStr ''CLIPBOARD''), (''text'', JStr ''hello''),
           (''secret'', JStr ''s'')]"

definition pull_request :: "string \<Rightarrow> json" where
  "pull_request channel =
     JObj [(''type'', JStr ''pull''), (''selection'', JStr channel), (''secret'', JStr ''s'')]"

text \<open>Node B, freshly enabled, after it has handled the first push.\<close>

definition node_B_after_hello :: extension where
  "node_B_after_hello =
     snd (handlePayload st_platform example_settings (enabled ''B'' Map.empty) 5000 hello_update)"



text \<open>
  Node B, freshly enabled with the primary selection synchronised, after its user has
  selected a text: \<^verbatim>\<open>_onOwnerChange\<close> has published it.
\<close>

definition node_B_after_selecting :: extension where
  "node_B_after_selecting =
     snd (publishClipboard st_platform primary_settings (enabled ''B'' Map.empty) 1000
            (ClipboardType_PRIMARY st_platform) ''selected'')"

section \<open>Basic facts\<close>

subsection \<open>Numbers and strings\<close>


lemma js_le_iff_not_lt: "a \<noteq> NaN \<Longrightarrow> b \<noteq> NaN \<Longrightarrow> js_le a b = (\<not> js_lt b a)"
  by (cases a; cases b) auto

lemma js_le_refl: "a \<noteq> NaN \<Longrightarrow> js_le a a"
  by (cases a) simp_all

lemma js_le_trans: "js_le a b \<Longrightarrow> js_le b c \<Longrightarrow> js_le a c"
  by (cases a; cases b; cases c) simp_all

lemma js_strict_eq_num_iff: "a \<noteq> NaN \<Longrightarrow> js_strict_eq_num a b = (a = b)"
  by (auto simp: js_strict_eq_num_def)

lemma js_or_str_empty: "js_or_str s [] = s"
  by (simp add: js_or_str_def)

lemma payload_timestamp_not_NaN: "payload_timestamp pf now payload \<noteq> NaN"
  by (simp add: payload_timestamp_def js_or_num_def truthy_num_def Date_now_def)

lemma reply_error_not_status: "reply_error m \<noteq> reply_status s"
  by (simp add: reply_error_def reply_status_def)

subsection \<open>The branches of the payload handler\<close>

lemma authenticated_is_object:
  "get_field payload ''secret'' = Some v \<Longrightarrow> truthy payload \<and> typeof_object payload"
  by (cases payload) simp_all

lemma handlePayload_authenticated:
  assumes "get_field payload ''secret'' = Some (JStr (shared_secret cfg))"
  shows "handlePayload pf cfg ext now payload =
     (let ptype = js_or (get_field payload ''type'') (JStr ''update'')
      in if ptype = JStr ''update'' then handleUpdate pf cfg ext now payload
         else if ptype = JStr ''pull'' then handlePull ext payload
         else (reply_error (''Unsupported payload type: '' @ js_String pf ptype), ext))"
  using authenticated_is_object [OF assms] assms
  by (simp add: handlePayload_def js_or_str_empty)

lemma handlePull_state: "snd (handlePull ext payload) = ext"
  by (simp add: handlePull_def Let_def split: option.splits)

lemma handlePull_reply_not_status:
  "fst (handlePull ext payload) = reply_status s \<Longrightarrow> s = ''empty''"
  by (simp add: handlePull_def Let_def reply_status_def split: option.splits)

lemma handlePull_not_error: "fst (handlePull ext payload) \<noteq> reply_error m"
  by (simp add: handlePull_def reply_error_def reply_status_def Let_def split: option.splits)

lemma handleUpdate_cases:
  "handleUpdate pf cfg ext now payload = (reply_error ''Unknown selection'', ext)
   \<or> (\<exists>selection. selectionFromKey pf cfg (get_field payload ''selection'') = Some selection
          \<and> selection \<noteq> 0
          \<and> handleUpdate pf cfg ext now payload
              = reconcile pf ext selection (payload_timestamp pf now payload)
                  (payload_sourceNode payload) (payload_text payload))"
  by (cases "selectionFromKey pf cfg (get_field payload ''selection'')")
    (simp_all add: handleUpdate_def Let_def)

lemma handleUpdate_replies:
  "fst (handleUpdate pf cfg ext now payload) = reply_error ''Unknown selection''
   \<or> fst (handleUpdate pf cfg ext now payload) = reply_status ''ignored''
   \<or> fst (handleUpdate pf cfg ext now payload) = reply_status ''ok''"
  by (simp add: handleUpdate_def reconcile_def Let_def split: option.splits)

lemma handleUpdate_not_unsupported:
  "fst (handleUpdate pf cfg ext now payload) \<noteq> reply_error (''Unsupported payload type: '' @ m)"
  using handleUpdate_replies [of pf cfg ext now payload]
  by (auto simp: reply_error_def reply_status_def)

text \<open>
  A call of the handler either leaves the extension as it was, with a reply other than
  \<^verbatim>\<open>ok\<close> and \<^verbatim>\<open>ignored\<close>, or it is the reconciliation of an authenticated
  update for a selection that resolved.
\<close>

lemma handlePayload_cases:
  assumes h: "handlePayload pf cfg ext now payload = (reply, ext')"
  shows "(ext' = ext \<and> reply \<noteq> reply_status ''ok'' \<and> reply \<noteq> reply_status ''ignored'')
     \<or> (\<exists>selection. selectionFromKey pf cfg (get_field payload ''selection'') = Some selection
            \<and> selection \<noteq> 0
            \<and> get_field payload ''secret'' = Some (JStr (shared_secret cfg))
            \<and> js_or (get_field payload ''type'') (JStr ''update'') = JStr ''update''
            \<and> (reply, ext') = reconcile pf ext selection (payload_timestamp pf now payload)
                (payload_sourceNode payload) (payload_text payload))"
proof (cases "get_field payload ''secret'' = Some (JStr (shared_secret cfg))")
  case False
  with h have "ext' = ext
      \<and> (reply = reply_error ''Invalid payload'' \<or> reply = reply_status ''unauthorized'')"
    by (auto simp: handlePayload_def js_or_str_empty split: if_splits)
  then show ?thesis
    by (auto simp: reply_error_def reply_status_def)
next
  case True
  note eq = handlePayload_authenticated [OF True, of pf ext now]
  let ?t = "js_or (get_field payload ''type'') (JStr ''update'')"
  consider (update) "?t = JStr ''update''" | (pull) "?t = JStr ''pull''"
    | (other) "?t \<noteq> JStr ''update''" "?t \<noteq> JStr ''pull''"
    by blast
  then show ?thesis
  proof cases
    case update
    with h eq have u: "handleUpdate pf cfg ext now payload = (reply, ext')"
      by simp
    from handleUpdate_cases [of pf cfg ext now payload] show ?thesis
    proof
      assume "handleUpdate pf cfg ext now payload = (reply_error ''Unknown selection'', ext)"
      with u have "ext' = ext" "reply = reply_error ''Unknown selection''"
        by simp_all
      then show ?thesis
        by (simp add: reply_error_not_status)
    next
      assume "\<exists>selection. selectionFromKey pf cfg (get_field payload ''selection'') = Some selection
          \<and> selection \<noteq> 0
          \<and> handleUpdate pf cfg ext now payload
              = reconcile pf ext selection (payload_timestamp pf now payload)
                  (payload_sourceNode payload) (payload_text payload)"
      with u True update show ?thesis
        by auto
    qed
  next
    case pull
    with h eq have p: "handlePull ext payload = (reply, ext')"
      by simp
    from p handlePull_state [of ext payload] have "ext' = ext"
      by simp
    moreover from p handlePull_reply_not_status [of ext payload]
    have "reply \<noteq> reply_status ''ok''" "reply \<noteq> reply_status ''ignored''"
      by auto
    ultimately show ?thesis
      by simp
  next
    case other
    with h eq have "ext' = ext"
      "reply = reply_error (''Unsupported payload type: '' @ js_String pf ?t)"
      by simp_all
    then show ?thesis
      by (simp only: reply_error_not_status) simp
  qed
qed

subsection \<open>One reconciliation step\<close>

lemma setClipboardFromRemote_keeps [simp]:
  "latestState (setClipboardFromRemote pf ext selection txt) = latestState ext"
  "nodeId (setClipboardFromRemote pf ext selection txt) = nodeId ext"
  by (simp_all add: setClipboardFromRemote_def Let_def)


lemma reconcile_monotone:
  assumes "latestState ext channel = Some old" "sr_timestamp old \<noteq> NaN" "timestamp \<noteq> NaN"
  shows "\<exists>new. latestState (snd (reconcile pf ext selection timestamp sourceNode txt)) channel
           = Some new
       \<and> js_le (sr_timestamp old) (sr_timestamp new) \<and> sr_timestamp new \<noteq> NaN"
  using assms
  by (auto simp: reconcile_def shouldAcceptUpdate_def recordState_def Let_def js_le_refl
      js_le_iff_not_lt split: if_splits option.splits)

subsection \<open>Stored timestamps are numbers\<close>

text \<open>
  No record written by \<^verbatim>\<open>_handlePayload\<close> or by \<^verbatim>\<open>_publishClipboard\<close> holds
  NaN as its timestamp, and the state store is empty after \<^verbatim>\<open>enable()\<close>.
\<close>

lemma recordState_numbers:
  assumes "\<forall>k r. latestState ext k = Some r \<longrightarrow> sr_timestamp r \<noteq> NaN" "timestamp \<noteq> NaN"
  shows "\<forall>k r. latestState (recordState pf ext selection txt timestamp node) k = Some r
           \<longrightarrow> sr_timestamp r \<noteq> NaN"
  using assms by (auto simp: recordState_def Let_def)

lemma handlePayload_numbers:
  assumes inv: "\<forall>k r. latestState ext k = Some r \<longrightarrow> sr_timestamp r \<noteq> NaN"
  shows "\<forall>k r. latestState (snd (handlePayload pf cfg ext now payload)) k = Some r
           \<longrightarrow> sr_timestamp r \<noteq> NaN"
proof -
  obtain reply ext' where h: "handlePayload pf cfg ext now payload = (reply, ext')"
    by (cases "handlePayload pf cfg ext now payload")
  from handlePayload_cases [OF h] show ?thesis
  proof
    assume "ext' = ext \<and> reply \<noteq> reply_status ''ok'' \<and> reply \<noteq> reply_status ''ignored''"
    with h inv show ?thesis by simp
  next
    assume "\<exists>selection. selectionFromKey pf cfg (get_field payload ''selection'') = Some selection
            \<and> selection \<noteq> 0
            \<and> get_field payload ''secret'' = Some (JStr (shared_secret cfg))
            \<and> js_or (get_field payload ''type'') (JStr ''update'') = JStr ''update''
            \<and> (reply, ext') = reconcile pf ext selection (payload_timestamp pf now payload)
                (payload_sourceNode payload) (payload_text payload)"
    then obtain selection where
      r: "(reply, ext') = reconcile pf ext selection (payload_timestamp pf now payload)
                (payload_sourceNode payload) (payload_text payload)"
      by blast
    have "ext' = ext \<or> ext' = recordState pf
        (setClipboardFromRemote pf ext selection (payload_text payload)) selection
        (payload_text payload) (payload_timestamp pf now payload) (payload_sourceNode payload)"
      using r by (auto simp: reconcile_def split: if_splits)
    then show ?thesis
    proof
      assume "ext' = ext"
      with h inv show ?thesis by simp
    next
      assume e: "ext' = recordState pf
        (setClipboardFromRemote pf ext selection (payload_text payload)) selection
        (payload_text payload) (payload_timestamp pf now payload) (payload_sourceNode payload)"
      have "\<forall>k r. latestState (setClipboardFromRemote pf ext selection (payload_text payload)) k
          = Some r \<longrightarrow> sr_timestamp r \<noteq> NaN"
        using inv by simp
      from recordState_numbers [OF this payload_timestamp_not_NaN]
      show ?thesis
        by (simp only: h e snd_conv)
    qed
  qed
qed

lemma publishClipboard_numbers:
  assumes "\<forall>k r. latestState ext k = Some r \<longrightarrow> sr_timestamp r \<noteq> NaN"
  shows "\<forall>k r. latestState (snd (publishClipboard pf cfg ext now selection txt)) k = Some r
           \<longrightarrow> sr_timestamp r \<noteq> NaN"
  using recordState_numbers [OF assms, of "Date_now now"]
  by (simp add: publishClipboard_def Let_def Date_now_def)

lemma enabled_numbers:
  "\<forall>k r. latestState (enabled node host_clipboard) k = Some r \<longrightarrow> sr_timestamp r \<noteq> NaN"
  by (simp add: enabled_def)

subsection \<open>The worked inputs, evaluated\<close>

lemma SELECTION_KEYS_st: "SELECTION_KEYS st_platform = [(1, ''CLIPBOARD''), (0, ''PRIMARY'')]"
  by (simp add: SELECTION_KEYS_def st_platform_def)

lemma selectionFromKey_CLIPBOARD_st:
  "selectionFromKey st_platform cfg (Some (JStr ''CLIPBOARD'')) = Some 1"
  by (simp add: selectionFromKey_def SELECTION_KEYS_st) (simp add: st_platform_def)

lemma handle_hello_update:
  "handlePayload st_platform example_settings (enabled ''B'' Map.empty) 5000 hello_update
     = (JObj [(''status'', JStr ''ok'')],
        \<lparr>latestState = [''CLIPBOARD'' \<mapsto>
           \<lparr>sr_text = ''hello'', sr_timestamp = Fin 1000, sr_node = JStr ''A''\<rparr>],
         suppressedSelections = {''CLIPBOARD''},
         clipboard = [1 \<mapsto> ''hello''], nodeId = ''B''\<rparr>)"
  apply (simp add: handlePayload_def handleUpdate_def hello_update_def
      example_settings_def js_or_str_def selectionFromKey_def SELECTION_KEYS_st
      payload_timestamp_def payload_sourceNode_def payload_text_def js_or_num_def truthy_num_def
      reconcile_def shouldAcceptUpdate_def selectionKey_def enabled_def recordState_def
      setClipboardFromRemote_def reply_status_def Let_def)
  apply (simp add: st_platform_def)
  done

lemma node_B_after_hello_eq:
  "node_B_after_hello =
     \<lparr>latestState = [''CLIPBOARD'' \<mapsto>
        \<lparr>sr_text = ''hello'', sr_timestamp = Fin 1000, sr_node = JStr ''A''\<rparr>],
      suppressedSelections = {''CLIPBOARD''},
      clipboard = [1 \<mapsto> ''hello''], nodeId = ''B''\<rparr>"
  by (simp add: node_B_after_hello_def handle_hello_update)





lemma node_B_after_selecting_eq:
  "node_B_after_selecting =
     \<lparr>latestState = [''PRIMARY'' \<mapsto>
        \<lparr>sr_text = ''selected'', sr_timestamp = Fin 1000, sr_node = JStr ''B''\<rparr>],
      suppressedSelections = {}, clipboard = Map.empty, nodeId = ''B''\<rparr>"
  by (simp add: node_B_after_selecting_def publishClipboard_def recordState_def selectionKey_def
      SELECTION_KEYS_st enabled_def Date_now_def js_or_str_def Let_def)
    (simp add: st_platform_def)

section \<open>Pull requests\<close>

text \<open>
  C1, as the round-trip property states it, fails: the reply to a pull carries the stored
  timestamp and the stored text, but its \<^verbatim>\<open>node\<close> is the identifier of the node
  that answers, not the origin stored with the record. Node B has stored the push of
  node A (origin \<open>A\<close>); a pull against B is answered with node \<open>B\<close>.
\<close>

theorem pull_node_counterexample:
  "latestState node_B_after_hello ''CLIPBOARD''
     = Some \<lparr>sr_text = ''hello'', sr_timestamp = Fin 1000, sr_node = JStr ''A''\<rparr>
   \<and> get_field (fst (handlePayload st_platform example_settings node_B_after_hello 6000
         (pull_request ''CLIPBOARD''))) ''node'' = Some (JStr ''B'')
   \<and> JStr ''B'' \<noteq> JStr ''A''"
  by (simp add: node_B_after_hello_eq handlePayload_def handlePull_def pull_request_def
      example_settings_def js_or_str_def)

text \<open>
  C1, amended: an authenticated pull for a channel (the selection the payload names,
  \<^verbatim>\<open>CLIPBOARD\<close> when it names none) that has a stored record is answered with
  status \<^verbatim>\<open>ok\<close>, type \<^verbatim>\<open>update\<close>, the answering node's own identifier, the
  channel, and exactly the stored timestamp and the stored text; for a channel with no
  stored record the reply is \<^verbatim>\<open>{status:"empty"}\<close>. The extension is left as it
  was in both cases.
\<close>

theorem pull_returns_stored_record:
  assumes auth: "get_field payload ''secret'' = Some (JStr (shared_secret cfg))"
    and pull: "get_field payload ''type'' = Some (JStr ''pull'')"
    and chan: "js_or (get_field payload ''selection'') (JStr ''CLIPBOARD'') = JStr channel"
  shows "handlePayload pf cfg ext now payload =
     (case latestState ext channel of
        None \<Rightarrow> (JObj [(''status'', JStr ''empty'')], ext)
      | Some stored \<Rightarrow>
          (JObj [(''status'', JStr ''ok''), (''type'', JStr ''update''),
                 (''node'', JStr (nodeId ext)), (''selection'', JStr channel),
                 (''timestamp'', JNum (sr_timestamp stored)),
                 (''text'', JStr (sr_text stored))], ext))"
  using pull chan
  by (simp add: handlePayload_authenticated [OF auth] handlePull_def reply_status_def
      split: option.splits)

theorem pull_returns_stored_record_witness:
  "handlePayload st_platform example_settings node_B_after_hello 6000 (pull_request ''CLIPBOARD'')
     = (JObj [(''status'', JStr ''ok''), (''type'', JStr ''update''),
              (''node'', JStr ''B''), (''selection'', JStr ''CLIPBOARD''),
              (''timestamp'', JNum (Fin 1000)),
              (''text'', JStr ''hello'')], node_B_after_hello)
   \<and> handlePayload st_platform example_settings node_B_after_hello 6000 (pull_request ''PRIMARY'')
     = (JObj [(''status'', JStr ''empty'')], node_B_after_hello)"
  using pull_returns_stored_record [of "pull_request ''CLIPBOARD''" example_settings
      "''CLIPBOARD''" st_platform node_B_after_hello 6000]
    pull_returns_stored_record [of "pull_request ''PRIMARY''" example_settings
      "''PRIMARY''" st_platform node_B_after_hello 6000]
  by (simp add: pull_request_def example_settings_def node_B_after_hello_eq)

section \<open>The primary selection while its synchronisation is disabled\<close>

text \<open>
  The update half of C2 holds on every platform: with \<^verbatim>\<open>sync-primary\<close> disabled,
  \<^verbatim>\<open>_selectionFromKey\<close> answers \<^verbatim>\<open>null\<close> for \<^verbatim>\<open>PRIMARY\<close>, and an
  authenticated update that names it is answered \<^verbatim>\<open>Unknown selection\<close> with the
  extension left as it was.
\<close>

lemma selectionFromKey_PRIMARY_disabled:
  "\<not> sync_primary cfg \<Longrightarrow> selectionFromKey pf cfg (Some (JStr ''PRIMARY'')) = None"
  by (simp add: selectionFromKey_def SELECTION_KEYS_def)

lemma update_PRIMARY_while_disabled:
  assumes "\<not> sync_primary cfg"
    and "get_field payload ''secret'' = Some (JStr (shared_secret cfg))"
    and "js_or (get_field payload ''type'') (JStr ''update'') = JStr ''update''"
    and "get_field payload ''selection'' = Some (JStr ''PRIMARY'')"
  shows "handlePayload pf cfg ext now payload
     = (JObj [(''status'', JStr ''error''), (''message'', JStr ''Unknown selection'')], ext)"
  using assms(1,3,4)
  by (simp add: handlePayload_authenticated [OF assms(2)] handleUpdate_def
      selectionFromKey_PRIMARY_disabled reply_error_def)

text \<open>
  Where the platform enumerates \<^verbatim>\<open>PRIMARY\<close> as zero, the test
  \<^verbatim>\<open>!selection\<close> also refuses it while the flag is enabled.
\<close>

lemma update_PRIMARY_enumerated_zero:
  assumes "ClipboardType_PRIMARY pf = 0"
    and "get_field payload ''secret'' = Some (JStr (shared_secret cfg))"
    and "js_or (get_field payload ''type'') (JStr ''update'') = JStr ''update''"
    and "get_field payload ''selection'' = Some (JStr ''PRIMARY'')"
  shows "handlePayload pf cfg ext now payload
     = (JObj [(''status'', JStr ''error''), (''message'', JStr ''Unknown selection'')], ext)"
  using assms(1,3,4)
  by (simp add: handlePayload_authenticated [OF assms(2)] handleUpdate_def
      selectionFromKey_def SELECTION_KEYS_def reply_error_def)

text \<open>
  C2, the pull half, at a failing input: node B stored a \<^verbatim>\<open>PRIMARY\<close> record while
  \<^verbatim>\<open>sync-primary\<close> was enabled; the flag is disabled afterwards (nothing clears the
  state store when it changes). The claim says a pull never returns the stored
  \<^verbatim>\<open>PRIMARY\<close> record then; the pull branch does not consult the flag and returns
  it.
\<close>

theorem pull_PRIMARY_while_disabled:
  "sync_primary example_settings = False
   \<and> handlePayload st_platform example_settings node_B_after_selecting 2000
       (pull_request ''PRIMARY'')
     = (JObj [(''status'', JStr ''ok''), (''type'', JStr ''update''),
              (''node'', JStr ''B''), (''selection'', JStr ''PRIMARY''),
              (''timestamp'', JNum (Fin 1000)),
              (''text'', JStr ''selected'')], node_B_after_selecting)"
  by (simp add: node_B_after_selecting_eq handlePayload_def handlePull_def pull_request_def
      example_settings_def js_or_str_def)

text \<open>What the peer reads in that reply: the text B's user had selected.\<close>

theorem pull_PRIMARY_while_disabled_witness:
  "get_field (fst (handlePayload st_platform example_settings node_B_after_selecting 2000
      (pull_request ''PRIMARY''))) ''text'' = Some (JStr ''selected'')
   \<and> get_field (fst (handlePayload st_platform example_settings node_B_after_selecting 2000
      (pull_request ''PRIMARY''))) ''status'' = Some (JStr ''ok'')"
  using pull_PRIMARY_while_disabled by simp

section \<open>Lines that are not a payload\<close>

text \<open>
  C3: for every inbound connection whose received line is empty, and for every one whose
  line the JSON parser rejects, the server writes the reply
  \<^verbatim>\<open>{status:"error", message:...}\<close> with the parser's message, then closes the
  connection (after closing the output stream when the write went through), and the
  extension's state is what it was.
\<close>

theorem unparsable_line_is_error:
  "processIncoming pf cfg ext now (ReadLine []) write_ok
     = (Write_reply (JObj [(''status'', JStr ''error''),
                           (''message'', JStr (JSON_parse_empty pf))])
          # (if write_ok then [Close_output] else []) @ [Close_connection], ext)
   \<and> (js_JSON_parse pf line = Inl message \<longrightarrow>
        processIncoming pf cfg ext now (ReadLine line) write_ok
          = (Write_reply (JObj [(''status'', JStr ''error''), (''message'', JStr message)])
               # (if write_ok then [Close_output] else []) @ [Close_connection], ext))"
  by (simp add: processIncoming_def js_JSON_parse_def finally_calls_def reply_error_def)

theorem unparsable_line_is_error_witness:
  "processIncoming st_platform example_settings node_B_after_hello 6000 (ReadLine []) True
     = ([Write_reply (JObj [(''status'', JStr ''error''),
                            (''message'', JStr ''Unexpected end of JSON input'')]),
         Close_output, Close_connection], node_B_after_hello)
   \<and> js_JSON_parse st_platform ''{type:'' = Inl ''Unexpected token''
   \<and> processIncoming st_platform example_settings node_B_after_hello 6000 (ReadLine ''{type:'')
        True
     = ([Write_reply (JObj [(''status'', JStr ''error''),
                            (''message'', JStr ''Unexpected token'')]),
         Close_output, Close_connection], node_B_after_hello)"
proof -
  have b: "js_JSON_parse st_platform ''{type:'' = Inl ''Unexpected token''"
    by (simp add: js_JSON_parse_def st_platform_def)
  from b
    unparsable_line_is_error [of st_platform example_settings node_B_after_hello 6000 True
      "''{type:''" "''Unexpected token''"]
  show ?thesis
    by (simp add: st_platform_def)
qed

text \<open>
  A read that yields no line at all is another case: the handler returns early and its
  \<^verbatim>\<open>finally\<close> block writes the initial reply.
\<close>

lemma no_line_is_ignored:
  "processIncoming pf cfg ext now ReadNull write_ok
     = (Write_reply (JObj [(''status'', JStr ''ignored'')])
          # (if write_ok then [Close_output] else []) @ [Close_connection], ext)"
  by (simp add: processIncoming_def finally_calls_def reply_status_def)

section \<open>Reconciliation\<close>

text \<open>
  C4: for every selection (its channel is \<open>selectionKey pf selection\<close>), incoming
  timestamp, node and text, and every state of the extension,
  \<^verbatim>\<open>_shouldAcceptUpdate\<close> answers what the five rules of the specification answer
  when evaluated in order; and an update whose node is the local node identifier is
  rejected whatever its timestamp and text.
\<close>

theorem shouldAcceptUpdate_is_reference:
  "shouldAcceptUpdate pf ext selection timestamp sourceNode txt =
     shouldAccept_reference (latestState ext (selectionKey pf selection))
       timestamp sourceNode txt (nodeId ext)
   \<and> shouldAcceptUpdate pf ext selection timestamp (JStr (nodeId ext)) txt = False"
  by (simp add: shouldAcceptUpdate_def shouldAccept_reference_def shouldAccept_rules_def
      split: option.splits)

section \<open>Authentication\<close>

text \<open>
  C5, as stated, fails for a payload that is not an object: the handler answers
  \<^verbatim>\<open>Invalid payload\<close> before it looks at the secret. The payload is the JSON
  number 5, which has no \<^verbatim>\<open>secret\<close>.
\<close>

theorem non_object_payload_counterexample:
  "get_field (JNum (Fin 5)) ''secret'' \<noteq> Some (JStr (shared_secret example_settings))
   \<and> handlePayload st_platform example_settings node_B_after_hello 6000 (JNum (Fin 5))
       = (JObj [(''status'', JStr ''error''), (''message'', JStr ''Invalid payload'')],
          node_B_after_hello)"
  by (simp add: handlePayload_def reply_error_def truthy_num_def)

text \<open>
  C5, amended: for every received payload that is an object or an array, of every payload
  type, whose secret field does not exactly equal the configured shared secret, the server
  responds \<^verbatim>\<open>{status:"unauthorized"}\<close>; a payload that is neither (null, a number,
  a string, a boolean) is answered \<^verbatim>\<open>{status:"error", message:"Invalid payload"}\<close>.
  The state store and the clipboard are left unchanged in both cases.
\<close>

theorem wrong_secret_is_unauthorized:
  assumes "get_field payload ''secret'' \<noteq> Some (JStr (shared_secret cfg))"
  shows "handlePayload pf cfg ext now payload =
     (if truthy payload \<and> typeof_object payload
      then JObj [(''status'', JStr ''unauthorized'')]
      else JObj [(''status'', JStr ''error''), (''message'', JStr ''Invalid payload'')], ext)"
  using assms
  by (simp add: handlePayload_def js_or_str_empty reply_status_def reply_error_def)

theorem wrong_secret_is_unauthorized_witness:
  "handlePayload st_platform example_settings node_B_after_hello 6000
     (JObj [(''type'', JStr ''update''), (''selection'', JStr ''CLIPBOARD''),
            (''timestamp'', JNum (Fin 7000)), (''text'', JStr ''x''), (''secret'', JStr ''wrong'')])
     = (JObj [(''status'', JStr ''unauthorized'')], node_B_after_hello)
   \<and> handlePayload st_platform example_settings node_B_after_hello 6000
     (JObj [(''type'', JStr ''pull'')])
     = (JObj [(''status'', JStr ''unauthorized'')], node_B_after_hello)"
  using wrong_secret_is_unauthorized [of
      "JObj [(''type'', JStr ''update''), (''selection'', JStr ''CLIPBOARD''),
            (''timestamp'', JNum (Fin 7000)), (''text'', JStr ''x''), (''secret'', JStr ''wrong'')]"
      example_settings st_platform node_B_after_hello 6000]
    wrong_secret_is_unauthorized [of "JObj [(''type'', JStr ''pull'')]"
      example_settings st_platform node_B_after_hello 6000]
  by (simp add: example_settings_def)

section \<open>The same update twice\<close>




section \<open>Defaults of an update\<close>

text \<open>
  C7: for every authenticated update payload whose selection resolves, a missing
  \<^verbatim>\<open>timestamp\<close> makes the handler reconcile with the current time as the
  timestamp, and a missing \<^verbatim>\<open>node\<close> makes it reconcile with the string
  \<^verbatim>\<open>remote\<close> as the source node: the defaults are in place when
  \<^verbatim>\<open>_shouldAcceptUpdate\<close> decides, and they are what is recorded.
\<close>

theorem missing_fields_defaulted:
  assumes auth: "get_field payload ''secret'' = Some (JStr (shared_secret cfg))"
    and upd: "js_or (get_field payload ''type'') (JStr ''update'') = JStr ''update''"
    and sel: "selectionFromKey pf cfg (get_field payload ''selection'') = Some selection"
    and nz: "selection \<noteq> 0"
  shows "(get_field payload ''timestamp'' = None \<longrightarrow>
            handlePayload pf cfg ext now payload
              = reconcile pf ext selection (Date_now now)
                  (payload_sourceNode payload) (payload_text payload))
       \<and> (get_field payload ''node'' = None \<longrightarrow>
            handlePayload pf cfg ext now payload
              = reconcile pf ext selection (payload_timestamp pf now payload)
                  (JStr ''remote'') (payload_text payload))"
  using upd sel nz
  by (simp add: handlePayload_authenticated [OF auth] handleUpdate_def Let_def
      payload_timestamp_def payload_sourceNode_def js_or_num_def truthy_num_def)

theorem missing_fields_defaulted_witness:
  "handlePayload st_platform example_settings (enabled ''B'' Map.empty) 5000 bare_update
     = reconcile st_platform (enabled ''B'' Map.empty) 1 (Fin 5000) (JStr ''remote'') ''hello''
   \<and> reconcile st_platform (enabled ''B'' Map.empty) 1 (Fin 5000) (JStr ''remote'') ''hello''
     = (JObj [(''status'', JStr ''ok'')],
        \<lparr>latestState = [''CLIPBOARD'' \<mapsto>
           \<lparr>sr_text = ''hello'', sr_timestamp = Fin 5000, sr_node = JStr ''remote''\<rparr>],
         suppressedSelections = {''CLIPBOARD''},
         clipboard = [1 \<mapsto> ''hello''], nodeId = ''B''\<rparr>)"
proof -
  have auth: "get_field bare_update ''secret'' = Some (JStr (shared_secret example_settings))"
    by (simp add: bare_update_def example_settings_def)
  have upd: "js_or (get_field bare_update ''type'') (JStr ''update'') = JStr ''update''"
    by (simp add: bare_update_def)
  have sel: "selectionFromKey st_platform example_settings (get_field bare_update ''selection'')
      = Some 1"
    by (simp add: bare_update_def selectionFromKey_CLIPBOARD_st)
  have ev: "reconcile st_platform (enabled ''B'' Map.empty) 1 (Fin 5000) (JStr ''remote'') ''hello''
     = (JObj [(''status'', JStr ''ok'')],
        \<lparr>latestState = [''CLIPBOARD'' \<mapsto>
           \<lparr>sr_text = ''hello'', sr_timestamp = Fin 5000, sr_node = JStr ''remote''\<rparr>],
         suppressedSelections = {''CLIPBOARD''},
         clipboard = [1 \<mapsto> ''hello''], nodeId = ''B''\<rparr>)"
    by (simp add: reconcile_def shouldAcceptUpdate_def selectionKey_def SELECTION_KEYS_st
        enabled_def recordState_def setClipboardFromRemote_def reply_status_def js_or_str_def
        Let_def)
  from missing_fields_defaulted [OF auth upd sel, of "enabled ''B'' Map.empty" 5000] ev
  show ?thesis
    by (simp add: bare_update_def Date_now_def payload_sourceNode_def payload_text_def)
qed

section \<open>The peer endpoint\<close>

text \<open>
  C8: \<^verbatim>\<open>_sendMessage\<close> returns \<^verbatim>\<open>null\<close> without opening a connection when
  the peer endpoint is unset, when it does not parse as a URI, when the URI has no host,
  and when the port (the URI's, or the configured listen port where the URI has none) is
  outside 1..65535; when the URI has a host and no port, and the listen port is valid, it
  connects to that host on the listen port.
\<close>

theorem sendMessage_endpoint:
  "(peer_endpoint cfg = [] \<longrightarrow> sendMessage pf cfg payload expectResponse = NoConnection)
   \<and> (Uri_parse pf (peer_endpoint cfg) = None \<longrightarrow>
        sendMessage pf cfg payload expectResponse = NoConnection)
   \<and> (\<forall>host uri_port. Uri_parse pf (peer_endpoint cfg) = Some (host, uri_port)
          \<and> (host = None \<or> host = Some []) \<longrightarrow>
        sendMessage pf cfg payload expectResponse = NoConnection)
   \<and> (\<forall>host uri_port. Uri_parse pf (peer_endpoint cfg) = Some (host, uri_port)
          \<and> uri_port \<noteq> - 1 \<and> (uri_port \<le> 0 \<or> 65535 < uri_port) \<longrightarrow>
        sendMessage pf cfg payload expectResponse = NoConnection)
   \<and> (\<forall>host. Uri_parse pf (peer_endpoint cfg) = Some (host, - 1)
          \<and> (listen_port cfg \<le> 0 \<or> 65535 < listen_port cfg) \<longrightarrow>
        sendMessage pf cfg payload expectResponse = NoConnection)
   \<and> (\<forall>h. peer_endpoint cfg \<noteq> [] \<and> Uri_parse pf (peer_endpoint cfg) = Some (Some h, - 1)
          \<and> h \<noteq> [] \<and> 0 < listen_port cfg \<and> listen_port cfg \<le> 65535 \<longrightarrow>
        sendMessage pf cfg payload expectResponse
          = Connection h (listen_port cfg)
              (exchange pf h (listen_port cfg) payload expectResponse))
   \<and> returned NoConnection = None"
  by (auto simp: sendMessage_def Let_def split: option.splits)

theorem sendMessage_endpoint_witness:
  "sendMessage st_platform (endpoint_settings [] 7100) hello_update False = NoConnection
   \<and> sendMessage st_platform (endpoint_settings ''not a uri'' 7100) hello_update False
        = NoConnection
   \<and> sendMessage st_platform (endpoint_settings ''peer:7100'' 7100) hello_update False
        = NoConnection
   \<and> sendMessage st_platform (endpoint_settings ''tcp://peer'' 0) hello_update False
        = NoConnection
   \<and> sendMessage st_platform (endpoint_settings ''tcp://peer'' 7100) hello_update False
        = Connection ''peer'' 7100 None"
proof -
  note t = sendMessage_endpoint [of _ st_platform hello_update False]
  have a: "sendMessage st_platform (endpoint_settings [] 7100) hello_update False
      = NoConnection"
    using t [of "endpoint_settings [] 7100"]
    by (simp add: endpoint_settings_def)
  have b: "sendMessage st_platform (endpoint_settings ''not a uri'' 7100) hello_update False
      = NoConnection"
    using t [of "endpoint_settings ''not a uri'' 7100"]
    by (simp add: endpoint_settings_def st_platform_def)
  have c: "sendMessage st_platform (endpoint_settings ''peer:7100'' 7100) hello_update False
      = NoConnection"
    using t [of "endpoint_settings ''peer:7100'' 7100"]
    by (simp add: endpoint_settings_def st_platform_def)
  have d: "sendMessage st_platform (endpoint_settings ''tcp://peer'' 0) hello_update False
      = NoConnection"
    using t [of "endpoint_settings ''tcp://peer'' 0"]
    by (simp add: endpoint_settings_def st_platform_def)
  have e: "sendMessage st_platform (endpoint_settings ''tcp://peer'' 7100) hello_update False
      = Connection ''peer'' 7100 None"
    using t [of "endpoint_settings ''tcp://peer'' 7100"]
    by (simp add: endpoint_settings_def st_platform_def)
  from a b c d e show ?thesis by simp
qed

section \<open>Dispatch on the payload type\<close>

text \<open>
  C9: an authenticated payload whose \<^verbatim>\<open>type\<close> is missing or falsy is handled
  exactly as an update, and is never answered with the unsupported-type error; a
  \<^verbatim>\<open>type\<close> that is present, truthy and neither \<^verbatim>\<open>update\<close> nor
  \<^verbatim>\<open>pull\<close> is answered \<^verbatim>\<open>{status:"error", message:"Unsupported payload
  type: <type>"}\<close>; and no other authenticated payload gets that answer.
\<close>

theorem missing_type_is_update:
  assumes auth: "get_field payload ''secret'' = Some (JStr (shared_secret cfg))"
  shows "((case get_field payload ''type'' of None \<Rightarrow> True | Some t \<Rightarrow> \<not> truthy t) \<longrightarrow>
            handlePayload pf cfg ext now payload = handleUpdate pf cfg ext now payload
            \<and> (\<forall>m. fst (handlePayload pf cfg ext now payload)
                  \<noteq> reply_error (''Unsupported payload type: '' @ m)))
       \<and> (\<forall>t. get_field payload ''type'' = Some t \<and> truthy t
                 \<and> t \<noteq> JStr ''update'' \<and> t \<noteq> JStr ''pull'' \<longrightarrow>
            handlePayload pf cfg ext now payload
              = (JObj [(''status'', JStr ''error''),
                       (''message'', JStr (''Unsupported payload type: '' @ js_String pf t))],
                 ext))
       \<and> ((\<exists>m. fst (handlePayload pf cfg ext now payload)
                  = reply_error (''Unsupported payload type: '' @ m))
            \<longrightarrow> (\<exists>t. get_field payload ''type'' = Some t \<and> truthy t
                     \<and> t \<noteq> JStr ''update'' \<and> t \<noteq> JStr ''pull''))"
proof (intro conjI impI allI)
  assume falsy: "case get_field payload ''type'' of None \<Rightarrow> True | Some t \<Rightarrow> \<not> truthy t"
  then have upd: "js_or (get_field payload ''type'') (JStr ''update'') = JStr ''update''"
    by (cases "get_field payload ''type''") simp_all
  show eq: "handlePayload pf cfg ext now payload = handleUpdate pf cfg ext now payload"
    by (simp add: handlePayload_authenticated [OF auth] upd)
  fix m
  show "fst (handlePayload pf cfg ext now payload)
      \<noteq> reply_error (''Unsupported payload type: '' @ m)"
    unfolding eq by (rule handleUpdate_not_unsupported)
next
  fix t
  assume "get_field payload ''type'' = Some t \<and> truthy t
          \<and> t \<noteq> JStr ''update'' \<and> t \<noteq> JStr ''pull''"
  then show "handlePayload pf cfg ext now payload
      = (JObj [(''status'', JStr ''error''),
               (''message'', JStr (''Unsupported payload type: '' @ js_String pf t))], ext)"
    by (simp add: handlePayload_authenticated [OF auth] reply_error_def)
next
  assume "\<exists>m. fst (handlePayload pf cfg ext now payload)
                  = reply_error (''Unsupported payload type: '' @ m)"
  then obtain m where m: "fst (handlePayload pf cfg ext now payload)
                  = reply_error (''Unsupported payload type: '' @ m)" ..
  let ?ptype = "js_or (get_field payload ''type'') (JStr ''update'')"
  have "?ptype \<noteq> JStr ''update''"
    using m handleUpdate_not_unsupported [of pf cfg ext now payload m]
    by (auto simp: handlePayload_authenticated [OF auth])
  moreover have "?ptype \<noteq> JStr ''pull''"
    using m handlePull_not_error [of ext payload] calculation
    by (auto simp: handlePayload_authenticated [OF auth])
  ultimately show "\<exists>t. get_field payload ''type'' = Some t \<and> truthy t
                     \<and> t \<noteq> JStr ''update'' \<and> t \<noteq> JStr ''pull''"
    by (cases "get_field payload ''type''") (auto split: if_splits)
qed

theorem missing_type_is_update_witness:
  "handlePayload st_platform example_settings node_B_after_hello 6000 untyped_update
     = handleUpdate st_platform example_settings node_B_after_hello 6000 untyped_update
   \<and> handlePayload st_platform example_settings node_B_after_hello 6000
       (JObj [(''type'', JStr ''delete''), (''secret'', JStr ''s'')])
     = (JObj [(''status'', JStr ''error''),
              (''message'', JStr ''Unsupported payload type: delete'')], node_B_after_hello)"
  using missing_type_is_update [of untyped_update example_settings st_platform
      node_B_after_hello 6000]
    missing_type_is_update [of "JObj [(''type'', JStr ''delete''), (''secret'', JStr ''s'')]"
      example_settings st_platform node_B_after_hello 6000]
  by (simp add: untyped_update_def example_settings_def)

section \<open>Stored timestamps never decrease\<close>

text \<open>
  C10: for every channel that has a record (its timestamp a number, as every record the
  handlers write has), handling any payload leaves the channel with a record whose
  timestamp is greater than or equal to the previous one; in particular whenever an update
  is accepted and recorded for that channel. The new timestamp is again a number.
\<close>

theorem stored_timestamp_never_decreases:
  assumes old: "latestState ext channel = Some old"
    and num: "sr_timestamp old \<noteq> NaN"
  shows "\<exists>new. latestState (snd (handlePayload pf cfg ext now payload)) channel = Some new
       \<and> js_le (sr_timestamp old) (sr_timestamp new) \<and> sr_timestamp new \<noteq> NaN"
proof -
  obtain reply ext' where h: "handlePayload pf cfg ext now payload = (reply, ext')"
    by (cases "handlePayload pf cfg ext now payload")
  from handlePayload_cases [OF h] show ?thesis
  proof
    assume "ext' = ext \<and> reply \<noteq> reply_status ''ok'' \<and> reply \<noteq> reply_status ''ignored''"
    with h old num show ?thesis
      by (simp add: js_le_refl)
  next
    assume "\<exists>selection. selectionFromKey pf cfg (get_field payload ''selection'') = Some selection
            \<and> selection \<noteq> 0
            \<and> get_field payload ''secret'' = Some (JStr (shared_secret cfg))
            \<and> js_or (get_field payload ''type'') (JStr ''update'') = JStr ''update''
            \<and> (reply, ext') = reconcile pf ext selection (payload_timestamp pf now payload)
                (payload_sourceNode payload) (payload_text payload)"
    then obtain selection where
      r: "(reply, ext') = reconcile pf ext selection (payload_timestamp pf now payload)
                (payload_sourceNode payload) (payload_text payload)"
      by blast
    have "\<exists>new. latestState (snd (reconcile pf ext selection (payload_timestamp pf now payload)
                (payload_sourceNode payload) (payload_text payload))) channel = Some new
       \<and> js_le (sr_timestamp old) (sr_timestamp new) \<and> sr_timestamp new \<noteq> NaN"
      by (rule reconcile_monotone [OF old num payload_timestamp_not_NaN])
    then show ?thesis
      by (simp add: h r [symmetric])
  qed
qed

theorem stored_timestamp_never_decreases_witness:
  "latestState node_B_after_hello ''CLIPBOARD''
     = Some \<lparr>sr_text = ''hello'', sr_timestamp = Fin 1000, sr_node = JStr ''A''\<rparr>
   \<and> (\<exists>new. latestState (snd (handlePayload st_platform example_settings node_B_after_hello
                 7000 later_update)) ''CLIPBOARD'' = Some new
         \<and> js_le (Fin 1000) (sr_timestamp new) \<and> sr_timestamp new \<noteq> NaN)"
proof -
  have old: "latestState node_B_after_hello ''CLIPBOARD''
     = Some \<lparr>sr_text = ''hello'', sr_timestamp = Fin 1000, sr_node = JStr ''A''\<rparr>"
    by (simp add: node_B_after_hello_eq)
  from stored_timestamp_never_decreases [OF old, of st_platform example_settings 7000
      later_update] old
  show ?thesis
    by simp
qed

end
